theory Spec2Isabelle
  imports Complex_Main "HOL-Library.Multiset" "HOL-Library.Sublist"
begin

section \<open>Data model (src/types/earthquake.ts)\<close>

text \<open>
  The four keys of the feed, \<^verbatim>\<open>'hour' | 'day' | 'week' | 'month'\<close>.
\<close>

datatype TimeRange = Hour | Day | Week | Month

text \<open>
  A JavaScript \<^verbatim>\<open>number\<close> as far as \<^verbatim>\<open>>=\<close> can tell values apart: the finite
  values (read as reals), the two infinities and NaN. \<^verbatim>\<open>parseFloat\<close> of an empty
  input yields NaN, so the minimum magnitude may be NaN.
\<close>

datatype jsnum = NaN | NegInfinity | Finite real | Infinity

text \<open>\<^verbatim>\<open>a >= b\<close> on numbers: false as soon as one side is NaN.\<close>

fun ge :: "jsnum \<Rightarrow> jsnum \<Rightarrow> bool" where
  "ge NaN b = False"
| "ge a NaN = False"
| "ge Infinity b = True"
| "ge a NegInfinity = True"
| "ge (Finite x) (Finite y) = (y \<le> x)"
| "ge (Finite x) Infinity = False"
| "ge NegInfinity b = False"

text \<open>The nullish coalescing operator \<^verbatim>\<open>v ?? d\<close>; \<^verbatim>\<open>null\<close> is \<open>None\<close>.\<close>

definition nullish :: "'a option \<Rightarrow> 'a \<Rightarrow> 'a" where
  "nullish v d = (case v of None \<Rightarrow> d | Some x \<Rightarrow> x)"

record EarthquakeProperties =
  mag :: "jsnum option"
  place :: "string option"
  time :: "int option"
  url :: "string option"
  tsunami :: "int option"
  sig :: "int option"

text \<open>\<^verbatim>\<open>coordinates\<close> is \<^verbatim>\<open>[lon, lat, depth]\<close>.\<close>

record EarthquakeFeature =
  feature_id :: string
  properties :: EarthquakeProperties
  coordinates :: "real \<times> real \<times> real"

record EarthquakeGeoJSON =
  features :: "EarthquakeFeature list"

section \<open>Strings\<close>

text \<open>
  A string is a list of characters, each standing for the code unit of the same number
  (U+0000 to U+00FF). On that range \<^verbatim>\<open>toLowerCase\<close> works unit by unit: the letters
  A to Z and U+00C0 to U+00DE (the multiplication sign U+00D7 apart) move up by 32.
\<close>

definition lowerChar :: "char \<Rightarrow> char" where
  "lowerChar c =
     (let n = (of_char c :: nat)
      in if (65 \<le> n \<and> n \<le> 90) \<or> (192 \<le> n \<and> n \<le> 222 \<and> n \<noteq> 215)
         then char_of (n + 32) else c)"

definition toLowerCase :: "string \<Rightarrow> string" where
  "toLowerCase s = map lowerChar s"

text \<open>
  \<^verbatim>\<open>trim\<close> removes white space and line terminators from both ends: tab, line feed,
  vertical tab, form feed, carriage return, space and no-break space.
\<close>

definition isWhiteSpace :: "char \<Rightarrow> bool" where
  "isWhiteSpace c = ((of_char c :: nat) \<in> {9, 10, 11, 12, 13, 32, 160})"

definition trim :: "string \<Rightarrow> string" where
  "trim s = rev (dropWhile isWhiteSpace (rev (dropWhile isWhiteSpace s)))"

text \<open>\<^verbatim>\<open>s.startsWith(q)\<close> and \<^verbatim>\<open>s.includes(q)\<close>: \<open>q\<close> occurs in \<open>s\<close> as a block.\<close>

fun startsWith :: "'a list \<Rightarrow> 'a list \<Rightarrow> bool" where
  "startsWith s [] = True"
| "startsWith [] (c # q) = False"
| "startsWith (d # s) (c # q) = (d = c \<and> startsWith s q)"

fun includes_str :: "'a list \<Rightarrow> 'a list \<Rightarrow> bool" where
  "includes_str [] q = (q = [])"
| "includes_str (c # s) q = (startsWith (c # s) q \<or> includes_str s q)"

section \<open>The filter (App.tsx, \<^verbatim>\<open>filtered\<close>)\<close>

text \<open>
  The callback of \<^verbatim>\<open>data.filter\<close>:
  \<^verbatim>\<open>
  const magOk = (f.properties.mag ?? -Infinity) >= minMag
  const q = query.trim().toLowerCase()
  const placeOk = q ? (f.properties.place ?? '').toLowerCase().includes(q) : true
  return magOk && placeOk
  \<close>
  A string is truthy when it is not empty. The state variables \<^verbatim>\<open>data\<close>, \<^verbatim>\<open>minMag\<close> and
  \<^verbatim>\<open>query\<close> that the callback closes over are the parameters \<open>events\<close>,
  \<open>minMagnitude\<close> and \<open>placeQuery\<close>.
\<close>

definition passes :: "jsnum \<Rightarrow> string \<Rightarrow> EarthquakeFeature \<Rightarrow> bool" where
  "passes minMagnitude placeQuery f =
     (let magOk = ge (nullish (mag (properties f)) NegInfinity) minMagnitude;
          q = toLowerCase (trim placeQuery);
          placeOk = (if q \<noteq> [] then includes_str (toLowerCase (nullish (place (properties f)) [])) q
                     else True)
      in magOk \<and> placeOk)"

definition filtered :: "EarthquakeFeature list \<Rightarrow> jsnum \<Rightarrow> string \<Rightarrow> EarthquakeFeature list" where
  "filtered events minMagnitude placeQuery = filter (passes minMagnitude placeQuery) events"

text \<open>
  The predicate in the words of the specification: the magnitude test, and the place
  substring empty or contained, case-folded, in the case-folded place.
\<close>

definition spec_passes :: "jsnum \<Rightarrow> string \<Rightarrow> EarthquakeFeature \<Rightarrow> bool" where
  "spec_passes minMagnitude placeQuery f =
     (ge (nullish (mag (properties f)) NegInfinity) minMagnitude \<and>
      (placeQuery = [] \<or>
       includes_str (toLowerCase (nullish (place (properties f)) [])) (toLowerCase placeQuery)))"

text \<open>An event record with the given id, magnitude, place and time, for examples.\<close>

definition mkFeature :: "string \<Rightarrow> jsnum option \<Rightarrow> string option \<Rightarrow> int option \<Rightarrow> EarthquakeFeature" where
  "mkFeature i m p t =
     \<lparr>feature_id = i,
      properties = \<lparr>mag = m, place = p, time = t, url = None, tsunami = None, sig = None\<rparr>,
      coordinates = (0, 0, 0)\<rparr>"

section \<open>Sorting and pagination (App.tsx, \<^verbatim>\<open>sortedByTimeDesc\<close>, \<^verbatim>\<open>totalPages\<close>, \<^verbatim>\<open>pageItems\<close>)\<close>

text \<open>
  \<^verbatim>\<open>[...filtered].sort((a, b) => (b.properties.time ?? 0) - (a.properties.time ?? 0))\<close>:
  the comparator orders by time, later first; \<^verbatim>\<open>Array.prototype.sort\<close> is stable, so
  events of equal time keep their order. This is the stable insertion sort on the
  negated time.
\<close>

definition sortedByTimeDesc :: "EarthquakeFeature list \<Rightarrow> EarthquakeFeature list" where
  "sortedByTimeDesc fs = sort_key (\<lambda>f. - nullish (time (properties f)) 0) fs"

definition pageSize :: nat where
  "pageSize = 9"

text \<open>\<^verbatim>\<open>Math.max(1, Math.ceil(sortedByTimeDesc.length / pageSize))\<close>\<close>

definition totalPages :: "'a list \<Rightarrow> int" where
  "totalPages srt = max 1 \<lceil>real (length srt) / real pageSize\<rceil>"

text \<open>
  \<^verbatim>\<open>xs.slice(start, end)\<close> on integers: a negative index counts from the end, both
  indices are clamped to the array, and an end before the start gives the empty array.
\<close>

definition slice :: "'a list \<Rightarrow> int \<Rightarrow> int \<Rightarrow> 'a list" where
  "slice xs start fin =
     (let len = int (length xs);
          k = (if start < 0 then max (len + start) 0 else min start len);
          final = (if fin < 0 then max (len + fin) 0 else min fin len)
      in take (nat (final - k)) (drop (nat k) xs))"

text \<open>
  \<^verbatim>\<open>
  const start = (page - 1) * pageSize
  return sortedByTimeDesc.slice(start, start + pageSize)
  \<close>
\<close>

definition pageItems :: "'a list \<Rightarrow> int \<Rightarrow> 'a list" where
  "pageItems srt pg =
     (let start = (pg - 1) * int pageSize
      in slice srt start (start + int pageSize))"

section \<open>The page-number window (App.tsx, \<^verbatim>\<open>getPageNumbers\<close>)\<close>

text \<open>
  \<^verbatim>\<open>Array.from({ length: n }, (_, i) => g(i))\<close>: the values of \<open>g\<close> at \<open>0, ..., n - 1\<close>,
  and the empty array when \<open>n\<close> is not positive.
\<close>

definition arrayFrom :: "int \<Rightarrow> (nat \<Rightarrow> 'a) \<Rightarrow> 'a list" where
  "arrayFrom n g = map g [0..<nat n]"

text \<open>
  \<^verbatim>\<open>
  function getPageNumbers(current, total, max = 7) {
    if (total <= max) return Array.from({ length: total }, (_, i) => i + 1)
    const half = Math.floor(max / 2)
    let start = Math.max(1, current - half)
    let end = start + max - 1
    if (end > total) { end = total; start = end - max + 1 }
    return Array.from({ length: end - start + 1 }, (_, i) => start + i)
  }
  \<close>
  The parameters \<^verbatim>\<open>total\<close> and \<^verbatim>\<open>max\<close> are \<open>totl\<close> and \<open>maxw\<close> here.
\<close>

definition getPageNumbers :: "int \<Rightarrow> int \<Rightarrow> int \<Rightarrow> int list" where
  "getPageNumbers current totl maxw =
     (if totl \<le> maxw then arrayFrom totl (\<lambda>i. int i + 1)
      else
        let half = maxw div 2;
            start0 = max 1 (current - half);
            fin0 = start0 + maxw - 1;
            fin = (if fin0 > totl then totl else fin0);
            start = (if fin0 > totl then fin - maxw + 1 else start0)
        in arrayFrom (fin - start + 1) (\<lambda>i. start + int i))"

text \<open>The call sites pass two arguments, so the window is the default 7.\<close>

definition getPageNumbersDefault :: "int \<Rightarrow> int \<Rightarrow> int list" where
  "getPageNumbersDefault current totl = getPageNumbers current totl 7"

section \<open>The feed client (src/lib/usgs.ts)\<close>

text \<open>
  A value that a promise rejects with: an \<^verbatim>\<open>Error\<close> object with its message, or
  anything else.
\<close>

datatype thrown = JsError string | NonError

text \<open>
  What the client reads of a response: the status, and what \<^verbatim>\<open>response.json()\<close>
  settles with (a parse failure rejects). \<^verbatim>\<open>response.ok\<close> is true exactly for the
  statuses 200 to 299.
\<close>

record Response =
  status :: nat
  json :: "thrown + EarthquakeGeoJSON"

definition ok :: "Response \<Rightarrow> bool" where
  "ok response = (200 \<le> status response \<and> status response \<le> 299)"

definition FEED_BY_RANGE :: "TimeRange \<Rightarrow> string" where
  "FEED_BY_RANGE r =
     (case r of
        Hour \<Rightarrow> ''https://earthquake.usgs.gov/earthquakes/feed/v1.0/summary/all_hour.geojson''
      | Day \<Rightarrow> ''https://earthquake.usgs.gov/earthquakes/feed/v1.0/summary/all_day.geojson''
      | Week \<Rightarrow> ''https://earthquake.usgs.gov/earthquakes/feed/v1.0/summary/all_week.geojson''
      | Month \<Rightarrow> ''https://earthquake.usgs.gov/earthquakes/feed/v1.0/summary/all_month.geojson'')"

text \<open>The decimal digits of a number, as the template literal prints a status.\<close>

definition digit :: "nat \<Rightarrow> char" where
  "digit d = char_of (48 + d)"

fun showNat :: "nat \<Rightarrow> string" where
  "showNat n = (if n < 10 then [digit n] else showNat (n div 10) @ [digit (n mod 10)])"

text \<open>Reading decimal digits back, to say what a message carries.\<close>

definition readNat :: "string \<Rightarrow> nat" where
  "readNat s = foldl (\<lambda>acc c. 10 * acc + (of_char c - 48)) 0 s"

text \<open>
  \<^verbatim>\<open>
  const url = FEED_BY_RANGE[range]
  const response = await fetch(url)
  if (!response.ok) throw new Error(`USGS request failed: ${response.status}`)
  return (await response.json()) as EarthquakeGeoJSON
  \<close>
  The network is the parameter \<open>fetch\<close>: for a URL, the rejection or the response. The
  result is the rejection (\<open>Inl\<close>) or the collection (\<open>Inr\<close>) that the returned promise
  settles with.
\<close>

definition fetchEarthquakes ::
  "(string \<Rightarrow> thrown + Response) \<Rightarrow> TimeRange \<Rightarrow> thrown + EarthquakeGeoJSON" where
  "fetchEarthquakes fetch r =
     (let url = FEED_BY_RANGE r
      in case fetch url of
           Inl e \<Rightarrow> Inl e
         | Inr response \<Rightarrow>
             if \<not> ok response
             then Inl (JsError (''USGS request failed: '' @ showNat (status response)))
             else json response)"

section \<open>The state of the App component (App.tsx)\<close>

datatype Theme = Light | Dark

text \<open>
  The \<^verbatim>\<open>useState\<close> cells of \<^verbatim>\<open>App\<close> under their names (\<^verbatim>\<open>range\<close> is \<open>range'\<close>), and
  what the component keeps or reaches outside them:
  \<^item> \<open>suppressFit\<close> is \<^verbatim>\<open>suppressFitRef.current\<close>;
  \<^item> \<open>isActive\<close> holds the variable \<^verbatim>\<open>isActive\<close> of every run of the fetch effect, in
    the order of the runs, so the \<open>k\<close>-th fetch is the one started by run \<open>k\<close>;
  \<^item> \<open>rangeDep\<close> and \<open>lengthDep\<close> are the dependency values of the last run of the
    fetch effect and of the page-reset effect (\<open>None\<close> before the first run);
  \<^item> \<open>toasts\<close> are the descriptions passed to \<^verbatim>\<open>toast\<close>, and \<open>fitCalls\<close> the point
    collections whose bounds were passed to \<^verbatim>\<open>map.fitBounds\<close>, oldest first.
\<close>

record App =
  sidebarOpen :: bool
  theme :: Theme
  range' :: TimeRange
  minMag :: jsnum
  query :: string
  pendingRange :: TimeRange
  pendingMinMag :: jsnum
  pendingQuery :: string
  data :: "EarthquakeFeature list"
  loading :: bool
  error :: "string option"
  selected :: "EarthquakeFeature option"
  detailsOpen :: bool
  autoFitEnabled :: bool
  page :: int
  eventsOpen :: bool
  suppressFit :: bool
  isActive :: "bool list"
  rangeDep :: "TimeRange option"
  lengthDep :: "nat option"
  toasts :: "string list"
  fitCalls :: "(real \<times> real) list list"

definition initial :: App where
  "initial =
     \<lparr>sidebarOpen = False, theme = Dark, range' = Day, minMag = Finite 2.5, query = [],
      pendingRange = Day, pendingMinMag = Finite 2.5, pendingQuery = [],
      data = [], loading = True, error = None, selected = None, detailsOpen = False,
      autoFitEnabled = True, page = 1, eventsOpen = False, suppressFit = False,
      isActive = [], rangeDep = None, lengthDep = None, toasts = [], fitCalls = []\<rparr>"

subsection \<open>Values derived in a render\<close>

definition filteredOf :: "App \<Rightarrow> EarthquakeFeature list" where
  "filteredOf st = filtered (data st) (minMag st) (query st)"

definition sortedOf :: "App \<Rightarrow> EarthquakeFeature list" where
  "sortedOf st = sortedByTimeDesc (filteredOf st)"

text \<open>\<^verbatim>\<open>filtered.map((f) => [f.geometry.coordinates[1], f.geometry.coordinates[0]])\<close>\<close>

definition pointsMemo :: "App \<Rightarrow> (real \<times> real) list" where
  "pointsMemo st = map (\<lambda>f. case coordinates f of (lon, lat, depth) \<Rightarrow> (lat, lon)) (filteredOf st)"

definition pageItemsOf :: "App \<Rightarrow> EarthquakeFeature list" where
  "pageItemsOf st = pageItems (sortedOf st) (page st)"

text \<open>
  The markers, \<^verbatim>\<open>FitBounds\<close> and \<^verbatim>\<open>MapSelectionSync\<close> are rendered under
  \<^verbatim>\<open>{!loading && !error && (...)}\<close>; a string is falsy when empty, \<^verbatim>\<open>null\<close> is falsy.
\<close>

definition mapLayersShown :: "App \<Rightarrow> bool" where
  "mapLayersShown st = (\<not> loading st \<and> (error st = None \<or> error st = Some []))"

definition markersShown :: "App \<Rightarrow> EarthquakeFeature list" where
  "markersShown st = (if mapLayersShown st then filteredOf st else [])"

subsection \<open>Event handlers\<close>

text \<open>
  The click handler of a marker and of a list entry:
  \<^verbatim>\<open>suppressFitRef.current = true; setAutoFitEnabled(false); setSelected(f); setDetailsOpen(false)\<close>
\<close>

definition selectEvent :: "EarthquakeFeature \<Rightarrow> App \<Rightarrow> App" where
  "selectEvent f st =
     st\<lparr>suppressFit := True, autoFitEnabled := False, selected := Some f, detailsOpen := False\<rparr>"

text \<open>
  The two "Apply Filters" buttons:
  \<^verbatim>\<open>setRange(pendingRange); setMinMag(pendingMinMag); setQuery(pendingQuery);
  setSelected(null); setAutoFitEnabled(true)\<close>; the one in the sheet also closes the sheet.
\<close>

definition applyFilters :: "App \<Rightarrow> App" where
  "applyFilters st =
     st\<lparr>range' := pendingRange st, minMag := pendingMinMag st, query := pendingQuery st,
        selected := None, autoFitEnabled := True\<rparr>"

definition applyFiltersSheet :: "App \<Rightarrow> App" where
  "applyFiltersSheet st = (applyFilters st)\<lparr>sidebarOpen := False\<rparr>"

text \<open>\<^verbatim>\<open>(open) => { if (!open) setSelected(null); setDetailsOpen(open) }\<close>\<close>

definition onOpenChange :: "bool \<Rightarrow> App \<Rightarrow> App" where
  "onOpenChange opn st =
     (if \<not> opn then st\<lparr>selected := None, detailsOpen := opn\<rparr> else st\<lparr>detailsOpen := opn\<rparr>)"

definition toggleTheme :: "App \<Rightarrow> App" where
  "toggleTheme st = st\<lparr>theme := (if theme st = Dark then Light else Dark)\<rparr>"

subsection \<open>Effects\<close>

text \<open>
  The fetch effect, with the dependency \<^verbatim>\<open>[range]\<close>. A run first executes the cleanup
  of the run before it (\<^verbatim>\<open>isActive = false\<close> in that run's closure), then
  \<^verbatim>\<open>let isActive = true; setLoading(true); setError(null); fetchEarthquakes(range)...\<close>
\<close>

definition fetchCleanup :: "App \<Rightarrow> App" where
  "fetchCleanup st =
     (if isActive st = [] then st
      else st\<lparr>isActive := (isActive st)[length (isActive st) - 1 := False]\<rparr>)"

definition fetchEffect :: "App \<Rightarrow> App" where
  "fetchEffect st =
     (let st1 = fetchCleanup st
      in st1\<lparr>isActive := isActive st1 @ [True], loading := True, error := None,
             rangeDep := Some (range' st1)\<rparr>)"

text \<open>The variable \<^verbatim>\<open>isActive\<close> of the \<open>k\<close>-th run; no such run, no callback.\<close>

definition active :: "App \<Rightarrow> nat \<Rightarrow> bool" where
  "active st k = (k < length (isActive st) \<and> isActive st ! k)"

text \<open>
  The callbacks on the promise of the \<open>k\<close>-th run:
  \<^verbatim>\<open>
  .then((geo) => { if (!isActive) return; setData(geo.features) })
  .catch((e) => { if (!isActive) return
                  const message = e instanceof Error ? e.message : 'Unknown error'
                  setError(message); toast({ ..., description: message, ... }) })
  .finally(() => isActive && setLoading(false))
  \<close>
\<close>

definition messageOf :: "thrown \<Rightarrow> string" where
  "messageOf e = (case e of JsError m \<Rightarrow> m | NonError \<Rightarrow> ''Unknown error'')"

definition thenCb :: "nat \<Rightarrow> EarthquakeGeoJSON \<Rightarrow> App \<Rightarrow> App" where
  "thenCb k geo st = (if \<not> active st k then st else st\<lparr>data := features geo\<rparr>)"

definition catchCb :: "nat \<Rightarrow> thrown \<Rightarrow> App \<Rightarrow> App" where
  "catchCb k e st =
     (if \<not> active st k then st
      else let message = messageOf e
           in st\<lparr>error := Some message, toasts := toasts st @ [message]\<rparr>)"

definition finallyCb :: "nat \<Rightarrow> App \<Rightarrow> App" where
  "finallyCb k st = (if active st k then st\<lparr>loading := False\<rparr> else st)"

definition onFulfilled :: "nat \<Rightarrow> EarthquakeGeoJSON \<Rightarrow> App \<Rightarrow> App" where
  "onFulfilled k geo st = finallyCb k (thenCb k geo st)"

definition onRejected :: "nat \<Rightarrow> thrown \<Rightarrow> App \<Rightarrow> App" where
  "onRejected k e st = finallyCb k (catchCb k e st)"

text \<open>
  The page-reset effect, with the dependency \<^verbatim>\<open>[sortedByTimeDesc.length]\<close>:
  \<^verbatim>\<open>setPage(1); setAutoFitEnabled(true)\<close>
\<close>

definition lengthEffect :: "App \<Rightarrow> App" where
  "lengthEffect st =
     st\<lparr>page := 1, autoFitEnabled := True, lengthDep := Some (length (sortedOf st))\<rparr>"

text \<open>
  The effect of \<^verbatim>\<open>FitBounds\<close>, for the props \<open>points\<close> and \<open>disabled\<close>:
  \<^verbatim>\<open>
  if (disabled) return
  if (suppressFitRef.current) { suppressFitRef.current = false; return }
  if (points.length === 0) return
  const bounds = L.latLngBounds(points.map(([lat, lon]) => L.latLng(lat, lon)))
  map.fitBounds(bounds, { padding: [24, 24], maxZoom: 6, animate: false })
  \<close>
\<close>

definition FitBounds :: "(real \<times> real) list \<Rightarrow> bool \<Rightarrow> App \<Rightarrow> App" where
  "FitBounds points disabled st =
     (if disabled then st
      else if suppressFit st then st\<lparr>suppressFit := False\<rparr>
      else if length points = 0 then st
      else st\<lparr>fitCalls := fitCalls st @ [points]\<rparr>)"

subsection \<open>What can happen to the component\<close>

text \<open>
  The user's actions, the settling of a fetch, and the runs of the effects. An effect with
  dependencies runs after the first render and after a render in which a dependency has
  changed (the second run of every effect at mount that StrictMode adds in development is
  left out); \<^verbatim>\<open>FitBounds\<close> is rendered as \<^verbatim>\<open><FitBounds points={pointsMemo}
  disabled={!autoFitEnabled} />\<close> and only while the map layers are shown. When the
  renderer runs the effect of \<^verbatim>\<open>FitBounds\<close> is left open: it may be any time the
  layers are shown.
\<close>

datatype event =
    SetPendingRange TimeRange
  | SetPendingMinMag jsnum
  | SetPendingQuery string
  | ApplyFilters
  | ApplyFiltersSheet
  | SelectEvent EarthquakeFeature
  | SetPage int
  | OpenChange bool
  | ToggleTheme
  | SetSidebarOpen bool
  | SetEventsOpen bool
  | Fulfilled nat EarthquakeGeoJSON
  | Rejected nat thrown
  | RunFetchEffect
  | RunLengthEffect
  | RunFitBounds

fun step :: "event \<Rightarrow> App \<Rightarrow> App" where
  "step (SetPendingRange r) st = st\<lparr>pendingRange := r\<rparr>"
| "step (SetPendingMinMag m) st = st\<lparr>pendingMinMag := m\<rparr>"
| "step (SetPendingQuery q) st = st\<lparr>pendingQuery := q\<rparr>"
| "step ApplyFilters st = applyFilters st"
| "step ApplyFiltersSheet st = applyFiltersSheet st"
| "step (SelectEvent f) st = selectEvent f st"
| "step (SetPage p) st = st\<lparr>page := p\<rparr>"
| "step (OpenChange opn) st = onOpenChange opn st"
| "step ToggleTheme st = toggleTheme st"
| "step (SetSidebarOpen b) st = st\<lparr>sidebarOpen := b\<rparr>"
| "step (SetEventsOpen b) st = st\<lparr>eventsOpen := b\<rparr>"
| "step (Fulfilled k geo) st = onFulfilled k geo st"
| "step (Rejected k e) st = onRejected k e st"
| "step RunFetchEffect st = (if rangeDep st = Some (range' st) then st else fetchEffect st)"
| "step RunLengthEffect st =
     (if lengthDep st = Some (length (sortedOf st)) then st else lengthEffect st)"
| "step RunFitBounds st =
     (if mapLayersShown st then FitBounds (pointsMemo st) (\<not> autoFitEnabled st) st else st)"

definition run :: "event list \<Rightarrow> App \<Rightarrow> App" where
  "run es st = foldl (\<lambda>s e. step e s) st es"



text \<open>
  No fetch but the one started last is still active: the property that the cleanup of the
  fetch effect maintains.
\<close>

definition latestOnly :: "App \<Rightarrow> bool" where
  "latestOnly st = (\<forall>b \<in> set (butlast (isActive st)). \<not> b)"

subsection \<open>Example data\<close>

definition quakeA :: EarthquakeFeature where
  "quakeA =
     (mkFeature ''ak1'' (Some (Finite 5.5)) (Some ''12km NE of Anchorage, Alaska'') (Some 3000))
       \<lparr>coordinates := (- 149, 61, 40)\<rparr>"

definition quakeB :: EarthquakeFeature where
  "quakeB =
     (mkFeature ''jp1'' (Some (Finite 6)) (Some ''Near Tokyo, Japan'') (Some 2000))
       \<lparr>coordinates := (139, 35, 10)\<rparr>"

definition quakeC :: EarthquakeFeature where
  "quakeC =
     (mkFeature ''ca1'' (Some (Finite 2.1)) (Some ''5km W of Cobb, CA'') (Some 1000))
       \<lparr>coordinates := (- 122, 38, 2)\<rparr>"

definition quakeD :: EarthquakeFeature where
  "quakeD = mkFeature ''xx1'' None None None"


text \<open>Twelve events, one per time 1 to 12, with the ids e1 to e12.\<close>

definition twelve :: "EarthquakeFeature list" where
  "twelve =
     map (\<lambda>t. mkFeature (''e'' @ showNat (nat t)) (Some (Finite 3)) None (Some t)) [1..12]"

text \<open>
  The component after its first render, the first fetch fulfilled with four events, and
  its effects run: the events A and B pass the initial filter and the map is fitted to
  them.
\<close>

definition loaded :: App where
  "loaded =
     run [RunFetchEffect, RunLengthEffect,
          Fulfilled 0 \<lparr>features = [quakeA, quakeB, quakeC, quakeD]\<rparr>,
          RunLengthEffect, RunFitBounds] initial"

text \<open>Then the user applies the range "hour", and the second fetch is under way.\<close>

definition refetching :: App where
  "refetching = run [SetPendingRange Hour, ApplyFilters, RunFetchEffect] loaded"

section \<open>Properties of the filter\<close>

lemma startsWith_iff: "startsWith s q \<longleftrightarrow> (\<exists>b. s = q @ b)"
  by (induction s q rule: startsWith.induct) auto

text \<open>\<open>includes_str\<close> is the substring relation.\<close>

lemma includes_iff: "includes_str s q \<longleftrightarrow> (\<exists>a b. s = a @ q @ b)"
proof (induction s)
  case Nil
  then show ?case by auto
next
  case (Cons c s)
  show ?case
  proof
    assume "includes_str (c # s) q"
    then consider "startsWith (c # s) q" | "includes_str s q" by auto
    then show "\<exists>a b. c # s = a @ q @ b"
    proof cases
      case 1
      then obtain b where "c # s = q @ b" using startsWith_iff by blast
      then have "c # s = [] @ q @ b" by simp
      then show ?thesis by blast
    next
      case 2
      then obtain a b where "s = a @ q @ b" using Cons.IH by blast
      then have "c # s = (c # a) @ q @ b" by simp
      then show ?thesis by blast
    qed
  next
    assume "\<exists>a b. c # s = a @ q @ b"
    then obtain a b where ab: "c # s = a @ q @ b" by blast
    show "includes_str (c # s) q"
    proof (cases a)
      case Nil
      with ab have "startsWith (c # s) q" using startsWith_iff by fastforce
      then show ?thesis by simp
    next
      case (Cons d a')
      with ab have "s = a' @ q @ b" by simp
      then have "includes_str s q" using Cons.IH by blast
      then show ?thesis by simp
    qed
  qed
qed

lemma toLowerCase_Nil_iff: "toLowerCase s = [] \<longleftrightarrow> s = []"
  by (simp add: toLowerCase_def)

lemma passes_iff:
  "passes m q f \<longleftrightarrow>
     ge (nullish (mag (properties f)) NegInfinity) m \<and>
     (trim q = [] \<or>
      includes_str (toLowerCase (nullish (place (properties f)) [])) (toLowerCase (trim q)))"
  by (auto simp: passes_def Let_def toLowerCase_Nil_iff)

text \<open>
  C1, as the code has it. The query is trimmed before it is used: an event is in the
  output of the filter iff it is in the input, its magnitude (\<^verbatim>\<open>null\<close> read as
  \<^verbatim>\<open>-Infinity\<close>) is \<^verbatim>\<open>>=\<close> the minimum magnitude, and the trimmed place substring is
  empty or occurs, lower-cased, in the lower-cased place (\<^verbatim>\<open>null\<close> read as the empty
  string). So the output is a sublist of the input, every returned event satisfies both
  predicates and every excluded event violates one.
\<close>

theorem filtered_membership:
  "(f \<in> set (filtered events m q) \<longleftrightarrow>
      f \<in> set events \<and>
      ge (nullish (mag (properties f)) NegInfinity) m \<and>
      (trim q = [] \<or>
       includes_str (toLowerCase (nullish (place (properties f)) [])) (toLowerCase (trim q)))) \<and>
   subseq (filtered events m q) events \<and>
   set (filtered events m q) \<subseteq> set events"
  by (auto simp: filtered_def passes_iff)

text \<open>
  The scenarios of the specification: of the magnitudes 5.5, 6.0, 2.1 and \<^verbatim>\<open>null\<close> the
  minimum 5.0 keeps the first two, and the place filter \<^verbatim>\<open>alaska\<close> keeps Anchorage,
  Alaska and drops Tokyo.
\<close>

theorem filtered_membership_witness:
  "quakeA \<in> set (filtered [quakeA, quakeB, quakeC, quakeD] (Finite 5) []) \<and>
   quakeB \<in> set (filtered [quakeA, quakeB, quakeC, quakeD] (Finite 5) []) \<and>
   quakeC \<notin> set (filtered [quakeA, quakeB, quakeC, quakeD] (Finite 5) []) \<and>
   quakeD \<notin> set (filtered [quakeA, quakeB, quakeC, quakeD] (Finite 5) []) \<and>
   quakeA \<in> set (filtered [quakeA, quakeB] (Finite 0) ''alaska'') \<and>
   quakeB \<notin> set (filtered [quakeA, quakeB] (Finite 0) ''alaska'')"
proof -
  have a: "ge (nullish (mag (properties quakeA)) NegInfinity) (Finite 5)"
    and b: "ge (nullish (mag (properties quakeB)) NegInfinity) (Finite 5)"
    and c: "\<not> ge (nullish (mag (properties quakeC)) NegInfinity) (Finite 5)"
    and d: "\<not> ge (nullish (mag (properties quakeD)) NegInfinity) (Finite 5)"
    by code_simp+
  have t: "trim [] = []" by (simp add: trim_def)
  have a0: "ge (nullish (mag (properties quakeA)) NegInfinity) (Finite 0)" by code_simp
  have pa: "includes_str (toLowerCase (nullish (place (properties quakeA)) []))
              (toLowerCase (trim ''alaska''))" by code_simp
  have pb: "\<not> (trim ''alaska'' = [] \<or>
              includes_str (toLowerCase (nullish (place (properties quakeB)) []))
                (toLowerCase (trim ''alaska'')))" by code_simp
  show ?thesis
    using filtered_membership[of quakeA "[quakeA, quakeB, quakeC, quakeD]" "Finite 5" "[]"]
      filtered_membership[of quakeB "[quakeA, quakeB, quakeC, quakeD]" "Finite 5" "[]"]
      filtered_membership[of quakeC "[quakeA, quakeB, quakeC, quakeD]" "Finite 5" "[]"]
      filtered_membership[of quakeD "[quakeA, quakeB, quakeC, quakeD]" "Finite 5" "[]"]
      filtered_membership[of quakeA "[quakeA, quakeB]" "Finite 0" "''alaska''"]
      filtered_membership[of quakeB "[quakeA, quakeB]" "Finite 0" "''alaska''"]
      a b c d t a0 pa pb
    by simp
qed

text \<open>
  The claim without the trimming fails: for the query \<^verbatim>\<open>"alaska "\<close>, with a space at
  the end, the code keeps the event of Anchorage, Alaska, whose lower-cased place does not
  contain the untrimmed query.
\<close>

theorem filtered_untrimmed_counterexample:
  "quakeA \<in> set (filtered [quakeA] (Finite 0) ''alaska '') \<and>
   \<not> spec_passes (Finite 0) ''alaska '' quakeA"
  by code_simp

text \<open>
  C8. The filter is idempotent: filtering the output again with the same specification
  gives the same list.
\<close>

theorem filtered_idempotent:
  "filtered (filtered events m q) m q = filtered events m q"
  by (simp add: filtered_def)

theorem filtered_idempotent_witness:
  "filtered (filtered [quakeA, quakeB, quakeC, quakeD] (Finite 5) ''japan'') (Finite 5) ''japan''
     = filtered [quakeA, quakeB, quakeC, quakeD] (Finite 5) ''japan'' \<and>
   filtered [quakeA, quakeB, quakeC, quakeD] (Finite 5) ''japan'' = [quakeB]"
proof -
  have "filtered [quakeA, quakeB, quakeC, quakeD] (Finite 5) ''japan'' = [quakeB]"
    by code_simp
  then show ?thesis
    using filtered_idempotent[of "[quakeA, quakeB, quakeC, quakeD]" "Finite 5" "''japan''"]
    by simp
qed

section \<open>Properties of the pagination\<close>

lemma totalPages_ge: "int (length xs) \<le> totalPages xs * 9"
proof -
  have "real (length xs) / 9 \<le> real_of_int \<lceil>real (length xs) / 9\<rceil>"
    by (rule le_of_int_ceiling)
  then have "real (length xs) \<le> real_of_int \<lceil>real (length xs) / 9\<rceil> * 9"
    by linarith
  then have "real_of_int (int (length xs)) \<le> real_of_int (\<lceil>real (length xs) / 9\<rceil> * 9)"
    by simp
  then have "int (length xs) \<le> \<lceil>real (length xs) / 9\<rceil> * 9"
    by (simp only: of_int_le_iff)
  then show ?thesis
    unfolding totalPages_def pageSize_def by (simp add: max_def)
qed

lemma totalPages_pos: "1 \<le> totalPages xs"
  by (simp add: totalPages_def)

text \<open>From page 1 on, a page is the nine elements after the pages before it.\<close>

lemma pageItems_take_drop:
  assumes "1 \<le> p"
  shows "pageItems xs p = take 9 (drop (nat (p - 1) * 9) xs)"
proof -
  let ?s = "(p - 1) * 9"
  have s0: "0 \<le> ?s" using assms by simp
  have ns: "nat ?s = nat (p - 1) * 9" using assms by (simp add: nat_mult_distrib)
  show ?thesis
  proof (cases "?s \<le> int (length xs)")
    case True
    then have "pageItems xs p =
        take (nat (min (?s + 9) (int (length xs)) - ?s)) (drop (nat ?s) xs)"
      using s0 by (simp add: pageItems_def slice_def pageSize_def Let_def min_def)
    also have "\<dots> = take 9 (drop (nat ?s) xs)"
      using True s0 by (cases "?s + 9 \<le> int (length xs)") (simp_all add: min_def)
    finally show ?thesis using ns by simp
  next
    case False
    then have "pageItems xs p = []"
      using s0 by (simp add: pageItems_def slice_def pageSize_def Let_def min_def)
    moreover have "drop (nat ?s) xs = []" using False by simp
    ultimately show ?thesis using ns by simp
  qed
qed

lemma pageItems_length: "length (pageItems xs p) \<le> 9"
  by (auto simp: pageItems_def slice_def pageSize_def Let_def min_def max_def)

lemma concat_first_pages: "concat (map (pageItems xs) [1..int n]) = take (n * 9) xs"
proof (induction n)
  case 0
  then show ?case by simp
next
  case (Suc n)
  have "[1..int (Suc n)] = [1..int n] @ [int n + 1]"
    by (simp add: upto_rec2 add.commute)
  moreover have "pageItems xs (int n + 1) = take 9 (drop (n * 9) xs)"
    using pageItems_take_drop[of "int n + 1" xs] by simp
  moreover have "take (n * 9 + 9) xs = take (n * 9) xs @ take 9 (drop (n * 9) xs)"
    by (rule take_add)
  moreover have "Suc n * 9 = n * 9 + 9" by simp
  ultimately show ?case using Suc.IH by (simp del: upto.simps mult_Suc)
qed

lemma concat_all_pages: "concat (map (pageItems xs) [1..totalPages xs]) = xs"
proof -
  obtain n where n: "totalPages xs = int n"
    using totalPages_pos[of xs] by (metis nat_0_le order_trans zero_le_one)
  have "length xs \<le> n * 9" using totalPages_ge[of xs] n by linarith
  then show ?thesis using concat_first_pages[of xs n] n by simp
qed

lemma sortedByTimeDesc_sorted:
  "sorted_wrt (\<lambda>a b. nullish (time (properties b)) 0 \<le> nullish (time (properties a)) 0)
     (sortedByTimeDesc fs)"
proof -
  have "sorted (map (\<lambda>f. - nullish (time (properties f)) 0) (sortedByTimeDesc fs))"
    unfolding sortedByTimeDesc_def by (rule sorted_sort_key)
  then show ?thesis by (simp add: sorted_map)
qed

text \<open>
  C3. With the filtered list sorted by time, later first (\<^verbatim>\<open>null\<close> read as 0), the
  pages 1 to \<open>totalPages\<close>, each the slice of at most 9 elements from offset
  \<open>(p - 1) * 9\<close>, concatenated in order give the whole sorted list: nothing is left out
  and nothing is repeated. The sorted list has the events of the filtered list, each as
  often. This holds for every input, the empty one too.
\<close>

theorem pages_concat_sorted:
  "concat (map (pageItems (sortedByTimeDesc fs)) [1..totalPages (sortedByTimeDesc fs)])
     = sortedByTimeDesc fs \<and>
   sorted_wrt (\<lambda>a b. nullish (time (properties b)) 0 \<le> nullish (time (properties a)) 0)
     (sortedByTimeDesc fs) \<and>
   mset (sortedByTimeDesc fs) = mset fs \<and>
   length (pageItems (sortedByTimeDesc fs) p) \<le> 9"
proof -
  have "length (pageItems (sortedByTimeDesc fs) p) \<le> 9"
    by (rule pageItems_length)
  moreover have "mset (sortedByTimeDesc fs) = mset fs"
    by (simp add: sortedByTimeDesc_def)
  ultimately show ?thesis
    using concat_all_pages[of "sortedByTimeDesc fs"] sortedByTimeDesc_sorted[of fs] by simp
qed

text \<open>
  The scenario of the specification: twelve events make two pages, of nine and of three
  events, the latest event first.
\<close>

theorem pages_concat_sorted_witness:
  "totalPages (sortedByTimeDesc twelve) = 2 \<and>
   length (pageItems (sortedByTimeDesc twelve) 1) = 9 \<and>
   length (pageItems (sortedByTimeDesc twelve) 2) = 3 \<and>
   pageItems (sortedByTimeDesc twelve) 1 @ pageItems (sortedByTimeDesc twelve) 2
     = sortedByTimeDesc twelve \<and>
   sortedByTimeDesc twelve = rev twelve"
proof -
  have t: "totalPages (sortedByTimeDesc twelve) = 2" by code_simp
  have l1: "length (pageItems (sortedByTimeDesc twelve) 1) = 9" by code_simp
  have l2: "length (pageItems (sortedByTimeDesc twelve) 2) = 3" by code_simp
  have r: "sortedByTimeDesc twelve = rev twelve" by code_simp
  have u: "[1..2::int] = [1, 2]" by code_simp
  show ?thesis
    using pages_concat_sorted[of twelve 1] t l1 l2 r u by simp
qed

text \<open>
  C10. A page number above \<open>totalPages\<close> gives the empty page: the slice starts at or
  after the end of the list, and \<^verbatim>\<open>slice\<close> clamps instead of failing.
\<close>

theorem page_beyond_total_empty:
  "totalPages xs < p \<Longrightarrow> pageItems xs p = []"
proof -
  assume a: "totalPages xs < p"
  then have p1: "1 \<le> p" using totalPages_pos[of xs] by linarith
  have "totalPages xs \<le> p - 1" using a by linarith
  then have "totalPages xs * 9 \<le> (p - 1) * 9" by simp
  then have "int (length xs) \<le> (p - 1) * 9" using totalPages_ge[of xs] by linarith
  then have "length xs \<le> nat (p - 1) * 9"
    using p1 by (simp add: nat_mult_distrib le_nat_iff)
  then show ?thesis using pageItems_take_drop[OF p1, of xs] by simp
qed

theorem page_beyond_total_empty_witness:
  "totalPages (sortedByTimeDesc twelve) < 3 \<and> pageItems (sortedByTimeDesc twelve) 3 = []"
proof -
  have t: "totalPages (sortedByTimeDesc twelve) < 3" by code_simp
  show ?thesis using page_beyond_total_empty[OF t] t by simp
qed

section \<open>Properties of the page-number window\<close>

text \<open>
  For at least one page and a window that is not negative, the result is the run of
  \<open>min t w\<close> integers from some \<open>s\<close>, inside \<open>1..t\<close>, and around the current page when
  that is a page.
\<close>

lemma getPageNumbers_shape:
  assumes "1 \<le> t" "0 \<le> w"
  shows "\<exists>s. 1 \<le> s \<and> s + min t w - 1 \<le> t \<and>
             getPageNumbers c t w = map (\<lambda>i. s + int i) [0..<nat (min t w)] \<and>
             (1 \<le> w \<and> 1 \<le> c \<and> c \<le> t \<longrightarrow> s \<le> c \<and> c \<le> s + min t w - 1)"
proof (cases "t \<le> w")
  case True
  then have "getPageNumbers c t w = map (\<lambda>i. 1 + int i) [0..<nat (min t w)]"
    by (simp add: getPageNumbers_def arrayFrom_def min_def add.commute)
  then show ?thesis using True assms by (intro exI[of _ 1]) (simp add: min_def)
next
  case False
  then have wt: "w < t" by simp
  let ?s0 = "max 1 (c - w div 2)"
  show ?thesis
  proof (cases "?s0 + w - 1 > t")
    case True
    then have "getPageNumbers c t w = map (\<lambda>i. (t - w + 1) + int i) [0..<nat (min t w)]"
      using wt by (simp add: getPageNumbers_def arrayFrom_def Let_def min_def)
    moreover have "1 \<le> w \<and> 1 \<le> c \<and> c \<le> t \<longrightarrow> t - w + 1 \<le> c"
      using True by (auto simp: max_def split: if_splits)
    ultimately show ?thesis
      using wt assms by (intro exI[of _ "t - w + 1"]) (simp add: min_def)
  next
    case False
    then have "getPageNumbers c t w = map (\<lambda>i. ?s0 + int i) [0..<nat (min t w)]"
      using wt by (simp add: getPageNumbers_def arrayFrom_def Let_def min_def)
    moreover have "1 \<le> w \<and> 1 \<le> c \<and> c \<le> t \<longrightarrow> ?s0 \<le> c \<and> c \<le> ?s0 + w - 1"
      by (auto simp: max_def)
    ultimately show ?thesis
      using wt assms False by (intro exI[of _ ?s0]) (simp add: min_def)
  qed
qed

lemma int_run_props:
  fixes s :: int
  assumes r: "r = map (\<lambda>i. s + int i) [0..<n]"
  shows "length r = n"
    and "\<forall>i. Suc i < length r \<longrightarrow> r ! Suc i = r ! i + 1"
    and "set r = {s ..< s + int n}"
proof -
  show "length r = n" using r by simp
  show "\<forall>i. Suc i < length r \<longrightarrow> r ! Suc i = r ! i + 1" using r by simp
  show "set r = {s ..< s + int n}"
  proof
    show "set r \<subseteq> {s ..< s + int n}" using r by auto
    show "{s ..< s + int n} \<subseteq> set r"
    proof
      fix x assume "x \<in> {s ..< s + int n}"
      then have "x = s + int (nat (x - s))" "nat (x - s) < n" by auto
      then have "x \<in> (\<lambda>i. s + int i) ` {0..<n}" by (metis atLeastLessThan_iff imageI zero_le)
      then show "x \<in> set r" unfolding r by simp
    qed
  qed
qed

text \<open>
  C2, as the code has it. For every total \<open>t \<ge> 1\<close>, every window \<open>w \<ge> 0\<close> and every
  current page \<open>c\<close>, \<open>getPageNumbers c t w\<close> has exactly \<open>min t w\<close> elements, each the
  successor of the one before it, all within \<open>1..t\<close>; and it contains \<open>c\<close> whenever
  \<open>t \<ge> w\<close>, the window is at least 1 and \<open>c\<close> is one of the pages \<open>1..t\<close>.
\<close>

theorem getPageNumbers_window:
  assumes "1 \<le> t" "0 \<le> w"
  shows "int (length (getPageNumbers c t w)) = min t w \<and>
         (\<forall>i. Suc i < length (getPageNumbers c t w) \<longrightarrow>
               getPageNumbers c t w ! Suc i = getPageNumbers c t w ! i + 1) \<and>
         (\<forall>p \<in> set (getPageNumbers c t w). 1 \<le> p \<and> p \<le> t) \<and>
         (w \<le> t \<and> 1 \<le> w \<and> 1 \<le> c \<and> c \<le> t \<longrightarrow> c \<in> set (getPageNumbers c t w))"
proof -
  obtain s where s: "1 \<le> s" "s + min t w - 1 \<le> t"
      "getPageNumbers c t w = map (\<lambda>i. s + int i) [0..<nat (min t w)]"
      "1 \<le> w \<and> 1 \<le> c \<and> c \<le> t \<longrightarrow> s \<le> c \<and> c \<le> s + min t w - 1"
    using getPageNumbers_shape[OF assms, of c] by blast
  have m0: "0 \<le> min t w" using assms by simp
  note rp = int_run_props[OF s(3)]
  have "int (length (getPageNumbers c t w)) = min t w" using rp(1) m0 by simp
  moreover have "\<forall>p \<in> set (getPageNumbers c t w). 1 \<le> p \<and> p \<le> t"
    using rp(3) s(1,2) m0 by auto
  moreover have "w \<le> t \<and> 1 \<le> w \<and> 1 \<le> c \<and> c \<le> t \<longrightarrow> c \<in> set (getPageNumbers c t w)"
    using rp(3) s(4) m0 by auto
  ultimately show ?thesis using rp(2) by blast
qed

text \<open>Page 5 of 20 with the default window: the seven pages 2 to 8.\<close>

theorem getPageNumbers_window_witness:
  "(1::int) \<le> 20 \<and> (0::int) \<le> 7 \<and> (7::int) \<le> 20 \<and> (1::int) \<le> 5 \<and> (5::int) \<le> 20 \<and>
   getPageNumbersDefault 5 20 = [2, 3, 4, 5, 6, 7, 8] \<and>
   int (length (getPageNumbers 5 20 7)) = min 20 7 \<and>
   5 \<in> set (getPageNumbers 5 20 7) \<and>
   getPageNumbers 5 20 7 ! Suc 0 = getPageNumbers 5 20 7 ! 0 + 1"
  using getPageNumbers_window[of 20 7 5]
  by (simp add: getPageNumbersDefault_def getPageNumbers_def arrayFrom_def upt_rec)

text \<open>
  The claim for every current page fails. When the filtered list shrinks from nine pages
  to eight while page 9 is shown, the component renders \<^verbatim>\<open>getPageNumbers(9, 8)\<close> before
  the page is reset: the window is 2 to 8 and cannot contain 9. And for a negative window
  the result is empty, so its length is not \<open>min t w\<close>.
\<close>

theorem getPageNumbers_window_counterexample:
  "(1::int) \<le> 8 \<and> (7::int) \<le> 8 \<and>
   getPageNumbers 9 8 7 = [2, 3, 4, 5, 6, 7, 8] \<and>
   9 \<notin> set (getPageNumbers 9 8 7) \<and>
   getPageNumbers 1 1 (- 1) = [] \<and>
   int (length (getPageNumbers 1 1 (- 1))) \<noteq> min 1 (- 1)"
  by (simp add: getPageNumbers_def arrayFrom_def upt_rec)

section \<open>Properties of the feed client\<close>

lemma of_char_digit: "d < 10 \<Longrightarrow> (of_char (digit d) :: nat) = 48 + d"
  by (simp add: digit_def)

lemma readNat_snoc: "readNat (s @ [c]) = 10 * readNat s + (of_char c - 48)"
  by (simp add: readNat_def)

text \<open>The printed status determines the status.\<close>

lemma readNat_showNat: "readNat (showNat n) = n"
proof (induction n rule: showNat.induct)
  case (1 n)
  show ?case
  proof (cases "n < 10")
    case True
    then show ?thesis
      by (simp add: showNat.simps[of n] readNat_def of_char_digit del: showNat.simps)
  next
    case False
    then have "readNat (showNat (n div 10)) = n div 10"
      using 1 by (simp del: showNat.simps)
    moreover have "n mod 10 < 10" by simp
    ultimately show ?thesis using False
      by (simp add: showNat.simps[of n] readNat_snoc of_char_digit del: showNat.simps)
  qed
qed

text \<open>
  C5. For every range key, when the endpoint answers with a response: if the status is
  not a success status (not in 200 to 299), \<open>fetchEarthquakes\<close> rejects with the error
  \<^verbatim>\<open>USGS request failed: <status>\<close>, from whose message the status is read back; and if
  \<open>fetchEarthquakes\<close> returns a collection, the response was a success and the
  collection is its parsed body. So no data is returned for a non-success status.
\<close>

theorem fetchEarthquakes_status:
  assumes "fetch (FEED_BY_RANGE r) = Inr response"
  shows "(\<not> ok response \<longrightarrow>
            fetchEarthquakes fetch r
              = Inl (JsError (''USGS request failed: '' @ showNat (status response))) \<and>
            readNat (drop 21 (''USGS request failed: '' @ showNat (status response)))
              = status response) \<and>
         (\<forall>geo. fetchEarthquakes fetch r = Inr geo \<longrightarrow> ok response \<and> json response = Inr geo)"
  using assms
  by (auto simp: fetchEarthquakes_def Let_def readNat_showNat simp del: showNat.simps)

text \<open>The scenario of the specification: the feed of the last hour answers 503.\<close>

theorem fetchEarthquakes_status_witness:
  "\<not> ok \<lparr>status = 503, json = Inr \<lparr>features = [quakeA]\<rparr>\<rparr> \<and>
   fetchEarthquakes (\<lambda>u. Inr \<lparr>status = 503, json = Inr \<lparr>features = [quakeA]\<rparr>\<rparr>) Hour
     = Inl (JsError ''USGS request failed: 503'') \<and>
   readNat ''503'' = 503 \<and>
   ok \<lparr>status = 200, json = Inr \<lparr>features = [quakeA]\<rparr>\<rparr> \<and>
   fetchEarthquakes (\<lambda>u. Inr \<lparr>status = 200, json = Inr \<lparr>features = [quakeA]\<rparr>\<rparr>) Hour
     = Inr \<lparr>features = [quakeA]\<rparr>"
proof -
  have a: "\<not> ok \<lparr>status = 503, json = Inr \<lparr>features = [quakeA]\<rparr>\<rparr>"
    by (simp add: ok_def)
  have b: "showNat 503 = ''503''" by code_simp
  have c: "ok \<lparr>status = 200, json = Inr \<lparr>features = [quakeA]\<rparr>\<rparr>"
    by (simp add: ok_def)
  have d: "fetchEarthquakes (\<lambda>u. Inr \<lparr>status = 200, json = Inr \<lparr>features = [quakeA]\<rparr>\<rparr>) Hour
     = Inr \<lparr>features = [quakeA]\<rparr>"
    by (simp add: fetchEarthquakes_def ok_def)
  show ?thesis
    using fetchEarthquakes_status[of "\<lambda>u. Inr \<lparr>status = 503, json = Inr \<lparr>features = [quakeA]\<rparr>\<rparr>"
        Hour "\<lparr>status = 503, json = Inr \<lparr>features = [quakeA]\<rparr>\<rparr>"]
      fetchEarthquakes_status[of "\<lambda>u. Inr \<lparr>status = 200, json = Inr \<lparr>features = [quakeA]\<rparr>\<rparr>"
        Hour "\<lparr>status = 200, json = Inr \<lparr>features = [quakeA]\<rparr>\<rparr>"]
      a b c d
    by simp
qed

section \<open>Properties of the component\<close>


subsection \<open>The suppression flag\<close>

text \<open>
  C4, as the code has it. The effect of \<^verbatim>\<open>FitBounds\<close> tests \<^verbatim>\<open>disabled\<close> before the
  flag. When it runs with the flag set and automatic fit enabled, it resets the flag and
  fits nothing, whatever the points. When it runs with the flag set and automatic fit
  disabled, it returns at once and the flag stays set.
\<close>

theorem FitBounds_consumes_flag:
  "suppressFit st \<Longrightarrow>
     (\<not> disabled \<longrightarrow> \<not> suppressFit (FitBounds points disabled st) \<and>
                      fitCalls (FitBounds points disabled st) = fitCalls st) \<and>
     (disabled \<longrightarrow> FitBounds points disabled st = st)"
  by (simp add: FitBounds_def)

theorem FitBounds_consumes_flag_witness:
  "suppressFit (selectEvent quakeA loaded) \<and>
   \<not> suppressFit (FitBounds [(61, - 149)] False (selectEvent quakeA loaded)) \<and>
   fitCalls (FitBounds [(61, - 149)] False (selectEvent quakeA loaded))
     = fitCalls (selectEvent quakeA loaded) \<and>
   FitBounds [(61, - 149)] True (selectEvent quakeA loaded) = selectEvent quakeA loaded"
proof -
  have s: "suppressFit (selectEvent quakeA loaded)" by (simp add: selectEvent_def)
  show ?thesis
    using FitBounds_consumes_flag[OF s, of False "[(61, - 149)]"]
      FitBounds_consumes_flag[OF s, of True "[(61, - 149)]"] s
    by simp
qed

text \<open>
  The claim for every run of the effect fails right after a selection: the click sets the
  flag and disables automatic fit, so the next run of the effect, with the map layers
  shown, leaves the flag set.
\<close>

theorem FitBounds_flag_counterexample:
  "mapLayersShown (step (SelectEvent quakeA) loaded) \<and>
   suppressFit (step (SelectEvent quakeA) loaded) \<and>
   suppressFit (step RunFitBounds (step (SelectEvent quakeA) loaded))"
  by code_simp

subsection \<open>Automatic fit after a selection\<close>




text \<open>
  The flag that the click has set is still set when automatic fit is enabled again, so
  the first run of the effect of \<^verbatim>\<open>FitBounds\<close> after that resets the flag and fits
  nothing.
\<close>

lemma first_fit_after_apply_suppressed:
  "suppressFit (applyFilters (selectEvent f st)) \<and>
   autoFitEnabled (applyFilters (selectEvent f st)) \<and>
   fitCalls (FitBounds points False (applyFilters (selectEvent f st))) = fitCalls st \<and>
   \<not> suppressFit (FitBounds points False (applyFilters (selectEvent f st)))"
  by (simp add: applyFilters_def selectEvent_def FitBounds_def)



subsection \<open>A failed fetch\<close>

lemma onRejected_fields:
  "data (onRejected k e st) = data st"
  "range' (onRejected k e st) = range' st"
  "minMag (onRejected k e st) = minMag st"
  "query (onRejected k e st) = query st"
  "pendingRange (onRejected k e st) = pendingRange st"
  "pendingMinMag (onRejected k e st) = pendingMinMag st"
  "pendingQuery (onRejected k e st) = pendingQuery st"
  "selected (onRejected k e st) = selected st"
  "page (onRejected k e st) = page st"
  by (simp_all add: onRejected_def catchCb_def finallyCb_def active_def Let_def)

lemma onRejected_active:
  assumes "active st k"
  shows "loading (onRejected k e st) = False"
    and "error (onRejected k e st) = Some (messageOf e)"
    and "toasts (onRejected k e st) = toasts st @ [messageOf e]"
  using assms by (simp_all add: onRejected_def catchCb_def finallyCb_def active_def Let_def)

text \<open>The whole state after the failure of the active fetch, and of any other.\<close>

lemma onRejected_state_active:
  "active st k \<Longrightarrow>
     onRejected k e st
       = st\<lparr>loading := False, error := Some (messageOf e), toasts := toasts st @ [messageOf e]\<rparr>"
  by (simp add: onRejected_def catchCb_def finallyCb_def active_def Let_def)

lemma onRejected_state_inactive: "\<not> active st k \<Longrightarrow> onRejected k e st = st"
  by (simp add: onRejected_def catchCb_def finallyCb_def)

text \<open>
  C6, as the code has it. When the fetch of run \<open>k\<close> fails and that fetch is the active
  one, the state afterwards is the state before with the loading flag cleared, the error
  set to the message and the message added as a toast: nothing else changes. When that
  fetch is not the active one, nothing changes at all. In particular the event collection,
  the active and pending filters, the selection and the page number are unchanged, and so
  are the filtered events and the page of the list. After the failure of the active fetch
  with a message that is not empty the map layers are not rendered, so the map shows no
  markers while the list still shows the last data.
\<close>

theorem rejected_fetch_frame:
  assumes "st' = step (Rejected k e) st"
  shows "data st' = data st \<and> range' st' = range' st \<and> minMag st' = minMag st \<and>
         query st' = query st \<and> pendingRange st' = pendingRange st \<and>
         pendingMinMag st' = pendingMinMag st \<and> pendingQuery st' = pendingQuery st \<and>
         selected st' = selected st \<and> page st' = page st \<and>
         filteredOf st' = filteredOf st \<and> pageItemsOf st' = pageItemsOf st \<and>
         (active st k \<longrightarrow>
            st' = st\<lparr>loading := False, error := Some (messageOf e),
                      toasts := toasts st @ [messageOf e]\<rparr> \<and>
            loading st' = False \<and> error st' = Some (messageOf e) \<and>
            toasts st' = toasts st @ [messageOf e] \<and>
            (messageOf e \<noteq> [] \<longrightarrow> markersShown st' = [])) \<and>
         (\<not> active st k \<longrightarrow> st' = st)"
proof -
  have eq: "st' = onRejected k e st" using assms by simp
  have f: "filteredOf st' = filteredOf st"
    unfolding eq filteredOf_def by (simp only: onRejected_fields)
  then have p: "pageItemsOf st' = pageItemsOf st"
    unfolding eq pageItemsOf_def sortedOf_def by (simp only: onRejected_fields)
  have a: "active st k \<longrightarrow>
            loading st' = False \<and> error st' = Some (messageOf e) \<and>
            toasts st' = toasts st @ [messageOf e] \<and>
            (messageOf e \<noteq> [] \<longrightarrow> markersShown st' = [])"
    unfolding eq using onRejected_active[of st k e]
    by (simp add: markersShown_def mapLayersShown_def)
  have w: "active st k \<longrightarrow>
            st' = st\<lparr>loading := False, error := Some (messageOf e),
                      toasts := toasts st @ [messageOf e]\<rparr>"
    unfolding eq using onRejected_state_active[of st k e] by blast
  have n: "\<not> active st k \<longrightarrow> st' = st"
    unfolding eq using onRejected_state_inactive[of st k e] by blast
  have fields: "data st' = data st \<and> range' st' = range' st \<and> minMag st' = minMag st \<and>
         query st' = query st \<and> pendingRange st' = pendingRange st \<and>
         pendingMinMag st' = pendingMinMag st \<and> pendingQuery st' = pendingQuery st \<and>
         selected st' = selected st \<and> page st' = page st"
    unfolding eq by (simp only: onRejected_fields simp_thms)
  show ?thesis using fields f p a w n by blast
qed

text \<open>
  The scenario of the specification: the day's data is loaded, the fetch for the range
  "hour" fails with status 503. The loading flag, the error and the toasts change and
  nothing else; the list keeps the two filtered events of the day. A late failure of the
  fetch for "day" changes nothing.
\<close>

theorem rejected_fetch_frame_witness:
  "active refetching 1 \<and>
   step (Rejected 1 (JsError ''USGS request failed: 503'')) refetching
     = refetching\<lparr>loading := False, error := Some ''USGS request failed: 503'',
                   toasts := toasts refetching @ [''USGS request failed: 503'']\<rparr> \<and>
   data (step (Rejected 1 (JsError ''USGS request failed: 503'')) refetching) = data loaded \<and>
   pageItemsOf (step (Rejected 1 (JsError ''USGS request failed: 503'')) refetching)
     = [quakeA, quakeB] \<and>
   loading (step (Rejected 1 (JsError ''USGS request failed: 503'')) refetching) = False \<and>
   error (step (Rejected 1 (JsError ''USGS request failed: 503'')) refetching)
     = Some ''USGS request failed: 503'' \<and>
   \<not> active refetching 0 \<and>
   step (Rejected 0 (JsError ''USGS request failed: 503'')) refetching = refetching"
proof -
  have a: "active refetching 1" by code_simp
  have i: "\<not> active refetching 0" by code_simp
  have d: "data refetching = data loaded" by code_simp
  have p: "pageItemsOf refetching = [quakeA, quakeB]" by code_simp
  have m: "messageOf (JsError ''USGS request failed: 503'') = ''USGS request failed: 503''"
    by (simp add: messageOf_def)
  note act = rejected_fetch_frame[OF refl, of 1 "JsError ''USGS request failed: 503''" refetching]
  note stale = rejected_fetch_frame[OF refl, of 0 "JsError ''USGS request failed: 503''" refetching]
  from act a
  have s1: "step (Rejected 1 (JsError ''USGS request failed: 503'')) refetching
     = refetching\<lparr>loading := False, error := Some ''USGS request failed: 503'',
                   toasts := toasts refetching @ [''USGS request failed: 503'']\<rparr>"
    unfolding m by blast
  from act have s2:
    "data (step (Rejected 1 (JsError ''USGS request failed: 503'')) refetching) = data loaded"
    unfolding d [symmetric] by blast
  from act have s3:
    "pageItemsOf (step (Rejected 1 (JsError ''USGS request failed: 503'')) refetching)
       = [quakeA, quakeB]"
    unfolding p [symmetric] by blast
  from act a have s4:
    "loading (step (Rejected 1 (JsError ''USGS request failed: 503'')) refetching) = False"
    by blast
  from act a have s5:
    "error (step (Rejected 1 (JsError ''USGS request failed: 503'')) refetching)
       = Some ''USGS request failed: 503''"
    unfolding m by blast
  from stale i have s6:
    "step (Rejected 0 (JsError ''USGS request failed: 503'')) refetching = refetching"
    by blast
  show ?thesis using a i s1 s2 s3 s4 s5 s6 by blast
qed

text \<open>
  The claim that the map goes on showing the data fails in that scenario: the two events
  still pass the filter and fill the list, and the map, which showed them before the
  range was changed, shows no marker.
\<close>

theorem rejected_fetch_map_counterexample:
  "markersShown loaded = [quakeA, quakeB] \<and>
   active refetching 1 \<and>
   filteredOf (step (Rejected 1 (JsError ''USGS request failed: 503'')) refetching)
     = [quakeA, quakeB] \<and>
   pageItemsOf (step (Rejected 1 (JsError ''USGS request failed: 503'')) refetching)
     = [quakeA, quakeB] \<and>
   markersShown (step (Rejected 1 (JsError ''USGS request failed: 503'')) refetching) = []"
  by code_simp

subsection \<open>Superseded fetches\<close>

lemma isActive_step:
  "isActive (step e st) = isActive st \<or>
   (e = RunFetchEffect \<and> isActive (step e st) = isActive (fetchCleanup st) @ [True])"
  by (cases e)
     (simp_all add: applyFilters_def applyFiltersSheet_def selectEvent_def onOpenChange_def
        toggleTheme_def onFulfilled_def onRejected_def thenCb_def catchCb_def finallyCb_def
        Let_def fetchEffect_def lengthEffect_def FitBounds_def)

lemma update_last: "xs \<noteq> [] \<Longrightarrow> xs[length xs - 1 := v] = butlast xs @ [v]"
  by (induction xs rule: rev_induct) simp_all

text \<open>After the cleanup no fetch is active.\<close>

lemma cleanup_all_inactive:
  assumes "latestOnly st"
  shows "\<forall>b \<in> set (isActive (fetchCleanup st)). \<not> b"
proof (cases "isActive st = []")
  case True
  then show ?thesis by (simp add: fetchCleanup_def)
next
  case False
  then have "isActive (fetchCleanup st) = butlast (isActive st) @ [False]"
    using update_last[of "isActive st" False] by (simp add: fetchCleanup_def)
  then show ?thesis using assms by (simp add: latestOnly_def)
qed

lemma latestOnly_step: "latestOnly st \<Longrightarrow> latestOnly (step e st)"
proof -
  assume inv: "latestOnly st"
  consider "isActive (step e st) = isActive st"
    | "isActive (step e st) = isActive (fetchCleanup st) @ [True]"
    using isActive_step[of e st] by blast
  then show ?thesis
  proof cases
    case 1
    then show ?thesis using inv by (simp add: latestOnly_def)
  next
    case 2
    then show ?thesis using cleanup_all_inactive[OF inv] by (simp add: latestOnly_def)
  qed
qed

lemma latestOnly_run: "latestOnly st \<Longrightarrow> latestOnly (run es st)"
  by (induction es arbitrary: st) (simp_all add: run_def latestOnly_step)

lemma latestOnly_initial: "latestOnly initial"
  by (simp add: latestOnly_def initial_def)

lemma latestOnly_inactive:
  assumes "latestOnly st" "Suc k < length (isActive st)"
  shows "\<not> active st k"
proof -
  have "k < length (butlast (isActive st))" using assms(2) by simp
  then have "butlast (isActive st) ! k \<in> set (butlast (isActive st))" by (rule nth_mem)
  moreover have "butlast (isActive st) ! k = isActive st ! k"
    using assms(2) by (simp add: nth_butlast)
  ultimately show ?thesis using assms(1) by (auto simp: latestOnly_def active_def)
qed

lemma inactive_discarded:
  "\<not> active st k \<Longrightarrow> step (Fulfilled k geo) st = st \<and> step (Rejected k e) st = st"
  by (simp add: onFulfilled_def onRejected_def thenCb_def catchCb_def finallyCb_def)

text \<open>
  C7. In every state that the component reaches from its initial state, by whatever
  events in whatever order, a fetch that is not the one started last is discarded: when
  it is fulfilled or rejected, nothing changes, neither the data nor the error nor the
  loading flag. Each run of the fetch effect, which a change of the range causes, starts
  a new fetch, so only the response to the latest requested range can update the state.
\<close>

theorem stale_fetch_discarded:
  assumes "Suc k < length (isActive (run es initial))"
  shows "step (Fulfilled k geo) (run es initial) = run es initial \<and>
         step (Rejected k e) (run es initial) = run es initial"
proof -
  have "latestOnly (run es initial)"
    using latestOnly_run[OF latestOnly_initial] .
  then have "\<not> active (run es initial) k"
    using assms by (rule latestOnly_inactive)
  then show ?thesis by (rule inactive_discarded)
qed

text \<open>
  The range is changed to "hour" while the fetch for "day" is unresolved. The late
  answer for "day" changes nothing; the answer for "hour" is shown.
\<close>

theorem stale_fetch_discarded_witness:
  "Suc 0 < length (isActive
      (run [RunFetchEffect, RunLengthEffect, SetPendingRange Hour, ApplyFilters, RunFetchEffect]
         initial)) \<and>
   step (Fulfilled 0 \<lparr>features = [quakeA]\<rparr>)
      (run [RunFetchEffect, RunLengthEffect, SetPendingRange Hour, ApplyFilters, RunFetchEffect]
         initial)
     = run [RunFetchEffect, RunLengthEffect, SetPendingRange Hour, ApplyFilters, RunFetchEffect]
         initial \<and>
   step (Rejected 0 NonError)
      (run [RunFetchEffect, RunLengthEffect, SetPendingRange Hour, ApplyFilters, RunFetchEffect]
         initial)
     = run [RunFetchEffect, RunLengthEffect, SetPendingRange Hour, ApplyFilters, RunFetchEffect]
         initial \<and>
   data (step (Fulfilled 1 \<lparr>features = [quakeB]\<rparr>)
      (run [RunFetchEffect, RunLengthEffect, SetPendingRange Hour, ApplyFilters, RunFetchEffect]
         initial)) = [quakeB]"
proof -
  have l: "Suc 0 < length (isActive
      (run [RunFetchEffect, RunLengthEffect, SetPendingRange Hour, ApplyFilters, RunFetchEffect]
         initial))" by code_simp
  have d: "data (step (Fulfilled 1 \<lparr>features = [quakeB]\<rparr>)
      (run [RunFetchEffect, RunLengthEffect, SetPendingRange Hour, ApplyFilters, RunFetchEffect]
         initial)) = [quakeB]" by code_simp
  show ?thesis
    using stale_fetch_discarded[OF l, of "\<lparr>features = [quakeA]\<rparr>" NonError] l d
    by (simp only: simp_thms)
qed

end
